theory Spec2Isabelle
  imports Complex_Main
begin

section \<open>The geometry core of \<^verbatim>\<open>polynomial_visualizer.py\<close>\<close>

text \<open>
  The four geometry functions of the module (\<^verbatim>\<open>cubic_poly\<close>,
  \<^verbatim>\<open>cubic_poly_derivative\<close>, \<^verbatim>\<open>build_centerline\<close>,
  \<^verbatim>\<open>make_road_mesh\<close>) work on one-dimensional numpy arrays of
  \<^verbatim>\<open>float64\<close>. The embedding reads such an array as a list of real numbers and
  every arithmetic operation as the exact operation on the reals: rounding, overflow and
  the propagation of NaN and infinity are outside this model. The range of float64
  enters in a second model of the tangent lines alone (\<open>tangent_f64\<close>), where an
  overflow changes a result that float64 can hold. What numpy does beyond arithmetic is
  written out:
  \<^item> a binary operation on two arrays broadcasts them (equal lengths, or one operand of
    length 1) and raises \<^verbatim>\<open>ValueError\<close> otherwise;
  \<^item> an in-place operation \<^verbatim>\<open>x /= y\<close> needs the broadcast shape to be the
    shape of \<^verbatim>\<open>x\<close>;
  \<^item> a division by zero and the square root of a negative number raise nothing in
    numpy, they store an infinity or a NaN. The model has no such values, so it stops
    there with \<open>NonFinite\<close>: a result \<open>Inr\<close> says that every number computed on
    the way was a finite real.
\<close>

subsection \<open>Arrays and their operations\<close>

type_synonym ndarray = "real list"

datatype np_error = ValueError | NonFinite

definition and_then :: "np_error + 'a \<Rightarrow> ('a \<Rightarrow> np_error + 'b) \<Rightarrow> np_error + 'b" where
  "and_then r f = (case r of Inl e \<Rightarrow> Inl e | Inr v \<Rightarrow> f v)"

text \<open>The pairs of operands of an element-wise binary operation, after broadcasting.\<close>

definition broadcast_arrays :: "'a list \<Rightarrow> 'a list \<Rightarrow> np_error + ('a \<times> 'a) list" where
  "broadcast_arrays xs ys =
     (if length xs = length ys then Inr (zip xs ys)
      else if length xs = 1 then Inr (map (\<lambda>y. (hd xs, y)) ys)
      else if length ys = 1 then Inr (map (\<lambda>x. (x, hd ys)) xs)
      else Inl ValueError)"

text \<open>The same for an in-place operation: the result must fit the left operand.\<close>

definition broadcast_to :: "'a list \<Rightarrow> 'a list \<Rightarrow> np_error + ('a \<times> 'a) list" where
  "broadcast_to xs ys =
     (if length ys = length xs then Inr (zip xs ys)
      else if length ys = 1 then Inr (map (\<lambda>x. (x, hd ys)) xs)
      else Inl ValueError)"

definition np_add :: "ndarray \<Rightarrow> ndarray \<Rightarrow> np_error + ndarray" where
  "np_add xs ys = and_then (broadcast_arrays xs ys) (\<lambda>ps. Inr (map (\<lambda>(x, y). x + y) ps))"

definition np_sub :: "ndarray \<Rightarrow> ndarray \<Rightarrow> np_error + ndarray" where
  "np_sub xs ys = and_then (broadcast_arrays xs ys) (\<lambda>ps. Inr (map (\<lambda>(x, y). x - y) ps))"

definition np_mul :: "ndarray \<Rightarrow> ndarray \<Rightarrow> np_error + ndarray" where
  "np_mul xs ys = and_then (broadcast_arrays xs ys) (\<lambda>ps. Inr (map (\<lambda>(x, y). x * y) ps))"

text \<open>\<^verbatim>\<open>x /= y\<close> on arrays.\<close>

definition np_idiv :: "ndarray \<Rightarrow> ndarray \<Rightarrow> np_error + ndarray" where
  "np_idiv xs ys =
     and_then (broadcast_to xs ys)
       (\<lambda>ps. if list_ex (\<lambda>(x, y). y = 0) ps then Inl NonFinite
             else Inr (map (\<lambda>(x, y). x / y) ps))"

definition np_sqrt :: "ndarray \<Rightarrow> np_error + ndarray" where
  "np_sqrt xs = (if list_ex (\<lambda>x. x < 0) xs then Inl NonFinite else Inr (map sqrt xs))"

text \<open>A Python float with an array: \<^verbatim>\<open>k + xs\<close>, \<^verbatim>\<open>k * xs\<close>, \<^verbatim>\<open>xs ** n\<close>.\<close>

definition scalar_add :: "real \<Rightarrow> ndarray \<Rightarrow> ndarray" where
  "scalar_add k xs = map (\<lambda>x. k + x) xs"

definition scalar_mul :: "real \<Rightarrow> ndarray \<Rightarrow> ndarray" where
  "scalar_mul k xs = map (\<lambda>x. k * x) xs"

definition np_power :: "ndarray \<Rightarrow> nat \<Rightarrow> ndarray" where
  "np_power xs n = map (\<lambda>x. x ^ n) xs"

definition zeros_like :: "ndarray \<Rightarrow> ndarray" where
  "zeros_like xs = map (\<lambda>_. 0) xs"

definition ones_like :: "ndarray \<Rightarrow> ndarray" where
  "ones_like xs = map (\<lambda>_. 1) xs"

text \<open>\<^verbatim>\<open>np.where(xs < k, v, xs)\<close>.\<close>

definition where_less :: "ndarray \<Rightarrow> real \<Rightarrow> real \<Rightarrow> ndarray" where
  "where_less xs k v = map (\<lambda>x. if x < k then v else x) xs"

text \<open>\<^verbatim>\<open>np.vstack((xs, ys))\<close> of two one-dimensional arrays: the rows must have one length.\<close>

definition vstack :: "ndarray \<Rightarrow> ndarray \<Rightarrow> np_error + ndarray list" where
  "vstack xs ys = (if length xs = length ys then Inr [xs, ys] else Inl ValueError)"

subsection \<open>The curve evaluator\<close>

text \<open>\<^verbatim>\<open>return a + b*s + c*s**2 + d*s**3\<close>\<close>

definition cubic_poly :: "ndarray \<Rightarrow> real \<Rightarrow> real \<Rightarrow> real \<Rightarrow> real \<Rightarrow> np_error + ndarray" where
  "cubic_poly s a b c d =
     and_then (np_add (scalar_add a (scalar_mul b s)) (scalar_mul c (np_power s 2)))
       (\<lambda>t. np_add t (scalar_mul d (np_power s 3)))"

text \<open>\<^verbatim>\<open>return b + 2.0*c*s + 3.0*d*s**2\<close>\<close>

definition cubic_poly_derivative :: "ndarray \<Rightarrow> real \<Rightarrow> real \<Rightarrow> real \<Rightarrow> np_error + ndarray" where
  "cubic_poly_derivative s b c d =
     np_add (scalar_add b (scalar_mul (2 * c) s)) (scalar_mul (3 * d) (np_power s 2))"

subsection \<open>The frame builder\<close>

text \<open>
  \<^verbatim>\<open>build_centerline\<close> is split at its comments: \<open>tangent_norm\<close> and \<open>tangent\<close> are
  the lines that normalise \<open>T\<close>, \<open>left_candidate\<close>, \<open>left_norm\<close> and \<open>left_vector\<close> the
  lines that compute \<open>L\<close>. The tangent is a local value of the source function: it is
  not among the arrays the function returns. These definitions compute in the reals;
  what the tangent lines do where a square leaves the range of float64 is the subject of
  \<open>tangent_f64\<close> below.
\<close>

text \<open>\<^verbatim>\<open>Tnorm = np.sqrt(Tx*Tx + Ty*Ty + Tz*Tz)\<close>\<close>

definition norm3 :: "ndarray \<Rightarrow> ndarray \<Rightarrow> ndarray \<Rightarrow> np_error + ndarray" where
  "norm3 vx vy vz =
     and_then (np_mul vx vx) (\<lambda>xx.
     and_then (np_mul vy vy) (\<lambda>yy.
     and_then (np_add xx yy) (\<lambda>xy.
     and_then (np_mul vz vz) (\<lambda>zz.
     and_then (np_add xy zz) np_sqrt))))"

text \<open>\<^verbatim>\<open>vx /= n; vy /= n; vz /= n\<close>\<close>

definition divide3 :: "ndarray \<Rightarrow> ndarray \<Rightarrow> ndarray \<Rightarrow> ndarray \<Rightarrow>
    np_error + (ndarray \<times> ndarray \<times> ndarray)" where
  "divide3 vx vy vz n =
     and_then (np_idiv vx n) (\<lambda>vx'.
     and_then (np_idiv vy n) (\<lambda>vy'.
     and_then (np_idiv vz n) (\<lambda>vz'. Inr (vx', vy', vz'))))"

definition tangent_norm :: "ndarray \<Rightarrow> ndarray \<Rightarrow> ndarray \<Rightarrow> np_error + ndarray" where
  "tangent_norm s dYds dZds = norm3 (ones_like s) dYds dZds"

definition tangent :: "ndarray \<Rightarrow> ndarray \<Rightarrow> ndarray \<Rightarrow>
    np_error + (ndarray \<times> ndarray \<times> ndarray)" where
  "tangent s dYds dZds =
     and_then (tangent_norm s dYds dZds) (divide3 (ones_like s) dYds dZds)"

text \<open>
  \<^verbatim>\<open>Ux, Uy, Uz = 0.0, 0.0, 1.0\<close>,
  \<^verbatim>\<open>Lx = Uy*Tz - Uz*Ty\<close>, \<^verbatim>\<open>Ly = Uz*Tx - Ux*Tz\<close>, \<^verbatim>\<open>Lz = Ux*Ty - Uy*Tx\<close>
\<close>

definition left_candidate :: "ndarray \<Rightarrow> ndarray \<Rightarrow> ndarray \<Rightarrow>
    np_error + (ndarray \<times> ndarray \<times> ndarray)" where
  "left_candidate Tx Ty Tz =
     (let Ux = 0; Uy = 0; Uz = 1 in
      and_then (np_sub (scalar_mul Uy Tz) (scalar_mul Uz Ty)) (\<lambda>Lx.
      and_then (np_sub (scalar_mul Uz Tx) (scalar_mul Ux Tz)) (\<lambda>Ly.
      and_then (np_sub (scalar_mul Ux Ty) (scalar_mul Uy Tx)) (\<lambda>Lz. Inr (Lx, Ly, Lz)))))"

definition small :: real where
  "small = 1 / 10 ^ 8"

text \<open>
  \<^verbatim>\<open>Lnorm = np.sqrt(Lx*Lx + Ly*Ly + Lz*Lz)\<close>,
  \<^verbatim>\<open>Lnorm = np.where(Lnorm < small, 1.0, Lnorm)\<close>
\<close>

definition left_norm :: "ndarray \<Rightarrow> ndarray \<Rightarrow> ndarray \<Rightarrow> np_error + ndarray" where
  "left_norm Lx Ly Lz = and_then (norm3 Lx Ly Lz) (\<lambda>Lnorm. Inr (where_less Lnorm small 1))"

definition left_vector :: "ndarray \<Rightarrow> ndarray \<Rightarrow> ndarray \<Rightarrow>
    np_error + (ndarray \<times> ndarray \<times> ndarray)" where
  "left_vector Tx Ty Tz =
     and_then (left_candidate Tx Ty Tz) (\<lambda>(Lx, Ly, Lz).
     and_then (left_norm Lx Ly Lz) (divide3 Lx Ly Lz))"

text \<open>
  The lateral function, when given, maps the sample array to the arrays \<open>(Yc, dYds)\<close>
  (\<open>lateral_arrays\<close> is the \<^verbatim>\<open>if lateral_func is None\<close> of the source); it is
  taken to return two arrays of its own (the in-place divisions of the source write into
  \<open>dYds\<close>).
\<close>

definition lateral_arrays :: "ndarray \<Rightarrow> (ndarray \<Rightarrow> ndarray \<times> ndarray) option \<Rightarrow>
    ndarray \<times> ndarray" where
  "lateral_arrays s lateral_func =
     (case lateral_func of
        None \<Rightarrow> (zeros_like s, zeros_like s)
      | Some f \<Rightarrow> f s)"

definition build_centerline :: "ndarray \<Rightarrow> real \<Rightarrow> real \<Rightarrow> real \<Rightarrow> real \<Rightarrow>
    (ndarray \<Rightarrow> ndarray \<times> ndarray) option \<Rightarrow>
    np_error + (ndarray \<times> ndarray \<times> ndarray \<times> ndarray \<times> ndarray \<times> ndarray)" where
  "build_centerline s a b c d lateral_func =
     (let Xc = s;
          (Yc, dYds) = lateral_arrays s lateral_func
      in and_then (cubic_poly s a b c d) (\<lambda>Zc.
         and_then (cubic_poly_derivative s b c d) (\<lambda>dZds.
         and_then (tangent s dYds dZds) (\<lambda>(Tx, Ty, Tz).
         and_then (left_vector Tx Ty Tz) (\<lambda>(Lx, Ly, Lz).
         Inr (Xc, Yc, Zc, Lx, Ly, Lz))))))"

subsection \<open>The mesh extruder\<close>

definition make_road_mesh :: "ndarray \<Rightarrow> ndarray \<Rightarrow> ndarray \<Rightarrow> ndarray \<Rightarrow> ndarray \<Rightarrow> ndarray \<Rightarrow>
    real \<Rightarrow> np_error + (ndarray list \<times> ndarray list \<times> ndarray list)" where
  "make_road_mesh Xc Yc Zc Lx Ly Lz width =
     (let half = width / 2 in
      and_then (np_add Xc (scalar_mul half Lx)) (\<lambda>left_x.
      and_then (np_add Yc (scalar_mul half Ly)) (\<lambda>left_y.
      and_then (np_add Zc (scalar_mul half Lz)) (\<lambda>left_z.
      and_then (np_sub Xc (scalar_mul half Lx)) (\<lambda>right_x.
      and_then (np_sub Yc (scalar_mul half Ly)) (\<lambda>right_y.
      and_then (np_sub Zc (scalar_mul half Lz)) (\<lambda>right_z.
      and_then (vstack left_x right_x) (\<lambda>X.
      and_then (vstack left_y right_y) (\<lambda>Y.
      and_then (vstack left_z right_z) (\<lambda>Z.
      Inr (X, Y, Z)))))))))))"

subsection \<open>The tangent lines with the range of float64\<close>

text \<open>
  The definitions above compute in the reals, which have no largest number. A float64
  has one, and the squares of line 64 leave its range for slopes that are themselves
  well inside it. The lines 61 to 65 are therefore modelled a second time, over values
  that are a real number, an infinity or NaN. Rounding stays outside the model: an
  operation on two finite values stores its exact result, unless that result rounds
  beyond the largest float64 \<open>(2\<^sup>5\<^sup>3 - 1) 2\<^sup>9\<^sup>7\<^sup>1\<close>, which is so from
  \<open>2\<^sup>1\<^sup>0\<^sup>2\<^sup>4 - 2\<^sup>9\<^sup>7\<^sup>0\<close> on; then it stores an infinity. The operations on
  infinities and NaN are those of IEEE 754. The values have no negative zero, so the
  division says \<open>None\<close> where the result would depend on the sign of a zero divisor.
\<close>

datatype f64 = Finite real | PosInf | NegInf | NaN

definition overflow_threshold :: real where
  "overflow_threshold = 2 ^ 1024 - 2 ^ 970"

definition store :: "real \<Rightarrow> f64" where
  "store x =
     (if overflow_threshold \<le> x then PosInf
      else if x \<le> - overflow_threshold then NegInf
      else Finite x)"

fun f64_mul :: "f64 \<Rightarrow> f64 \<Rightarrow> f64" where
  "f64_mul NaN b = NaN"
| "f64_mul a NaN = NaN"
| "f64_mul (Finite x) (Finite y) = store (x * y)"
| "f64_mul (Finite x) PosInf = (if x = 0 then NaN else if 0 < x then PosInf else NegInf)"
| "f64_mul (Finite x) NegInf = (if x = 0 then NaN else if 0 < x then NegInf else PosInf)"
| "f64_mul PosInf (Finite y) = (if y = 0 then NaN else if 0 < y then PosInf else NegInf)"
| "f64_mul NegInf (Finite y) = (if y = 0 then NaN else if 0 < y then NegInf else PosInf)"
| "f64_mul PosInf PosInf = PosInf"
| "f64_mul PosInf NegInf = NegInf"
| "f64_mul NegInf PosInf = NegInf"
| "f64_mul NegInf NegInf = PosInf"

fun f64_add :: "f64 \<Rightarrow> f64 \<Rightarrow> f64" where
  "f64_add NaN b = NaN"
| "f64_add a NaN = NaN"
| "f64_add (Finite x) (Finite y) = store (x + y)"
| "f64_add (Finite x) PosInf = PosInf"
| "f64_add (Finite x) NegInf = NegInf"
| "f64_add PosInf (Finite y) = PosInf"
| "f64_add NegInf (Finite y) = NegInf"
| "f64_add PosInf PosInf = PosInf"
| "f64_add PosInf NegInf = NaN"
| "f64_add NegInf PosInf = NaN"
| "f64_add NegInf NegInf = NegInf"

fun f64_sqrt :: "f64 \<Rightarrow> f64" where
  "f64_sqrt NaN = NaN"
| "f64_sqrt (Finite x) = (if x < 0 then NaN else Finite (sqrt x))"
| "f64_sqrt PosInf = PosInf"
| "f64_sqrt NegInf = NaN"

fun f64_div :: "f64 \<Rightarrow> f64 \<Rightarrow> f64 option" where
  "f64_div NaN b = Some NaN"
| "f64_div a NaN = Some NaN"
| "f64_div (Finite x) (Finite y) =
     (if y = 0 then (if x = 0 then Some NaN else None) else Some (store (x / y)))"
| "f64_div (Finite x) PosInf = Some (Finite 0)"
| "f64_div (Finite x) NegInf = Some (Finite 0)"
| "f64_div PosInf (Finite y) =
     (if y = 0 then None else if 0 < y then Some PosInf else Some NegInf)"
| "f64_div NegInf (Finite y) =
     (if y = 0 then None else if 0 < y then Some NegInf else Some PosInf)"
| "f64_div PosInf PosInf = Some NaN"
| "f64_div PosInf NegInf = Some NaN"
| "f64_div NegInf PosInf = Some NaN"
| "f64_div NegInf NegInf = Some NaN"

definition np_mul_f64 :: "f64 list \<Rightarrow> f64 list \<Rightarrow> np_error + f64 list" where
  "np_mul_f64 xs ys =
     and_then (broadcast_arrays xs ys) (\<lambda>ps. Inr (map (\<lambda>(x, y). f64_mul x y) ps))"

definition np_add_f64 :: "f64 list \<Rightarrow> f64 list \<Rightarrow> np_error + f64 list" where
  "np_add_f64 xs ys =
     and_then (broadcast_arrays xs ys) (\<lambda>ps. Inr (map (\<lambda>(x, y). f64_add x y) ps))"

definition np_sqrt_f64 :: "f64 list \<Rightarrow> f64 list" where
  "np_sqrt_f64 xs = map f64_sqrt xs"

text \<open>
  \<^verbatim>\<open>x /= y\<close>; as in \<open>np_idiv\<close> a division whose result the model cannot name stops
  with \<open>NonFinite\<close>.
\<close>

definition np_idiv_f64 :: "f64 list \<Rightarrow> f64 list \<Rightarrow> np_error + f64 list" where
  "np_idiv_f64 xs ys =
     and_then (broadcast_to xs ys)
       (\<lambda>ps. case those (map (\<lambda>(x, y). f64_div x y) ps) of
               None \<Rightarrow> Inl NonFinite
             | Some zs \<Rightarrow> Inr zs)"

definition ones_like_f64 :: "ndarray \<Rightarrow> f64 list" where
  "ones_like_f64 xs = map (\<lambda>_. Finite 1) xs"

text \<open>\<^verbatim>\<open>Tnorm = np.sqrt(Tx*Tx + Ty*Ty + Tz*Tz)\<close>\<close>

definition norm3_f64 :: "f64 list \<Rightarrow> f64 list \<Rightarrow> f64 list \<Rightarrow> np_error + f64 list" where
  "norm3_f64 vx vy vz =
     and_then (np_mul_f64 vx vx) (\<lambda>xx.
     and_then (np_mul_f64 vy vy) (\<lambda>yy.
     and_then (np_add_f64 xx yy) (\<lambda>xy.
     and_then (np_mul_f64 vz vz) (\<lambda>zz.
     and_then (np_add_f64 xy zz) (\<lambda>q. Inr (np_sqrt_f64 q))))))"

text \<open>\<^verbatim>\<open>Tx /= Tnorm; Ty /= Tnorm; Tz /= Tnorm\<close>\<close>

definition divide3_f64 :: "f64 list \<Rightarrow> f64 list \<Rightarrow> f64 list \<Rightarrow> f64 list \<Rightarrow>
    np_error + (f64 list \<times> f64 list \<times> f64 list)" where
  "divide3_f64 vx vy vz n =
     and_then (np_idiv_f64 vx n) (\<lambda>vx'.
     and_then (np_idiv_f64 vy n) (\<lambda>vy'.
     and_then (np_idiv_f64 vz n) (\<lambda>vz'. Inr (vx', vy', vz'))))"

definition tangent_f64 :: "ndarray \<Rightarrow> f64 list \<Rightarrow> f64 list \<Rightarrow>
    np_error + (f64 list \<times> f64 list \<times> f64 list)" where
  "tangent_f64 s dYds dZds =
     and_then (norm3_f64 (ones_like_f64 s) dYds dZds)
       (divide3_f64 (ones_like_f64 s) dYds dZds)"

section \<open>Array operations on arrays of one length\<close>

lemma and_then_Inr [simp]: "and_then (Inr v) f = f v"
  by (simp add: and_then_def)

lemma and_then_Inl [simp]: "and_then (Inl e) f = Inl e"
  by (simp add: and_then_def)

lemma np_add_map [simp]:
  "np_add (map f ps) (map g ps) = Inr (map (\<lambda>p. f p + g p) ps)"
  by (simp add: np_add_def broadcast_arrays_def zip_map_map zip_same_conv_map)

lemma np_sub_map [simp]:
  "np_sub (map f ps) (map g ps) = Inr (map (\<lambda>p. f p - g p) ps)"
  by (simp add: np_sub_def broadcast_arrays_def zip_map_map zip_same_conv_map)

lemma np_mul_map [simp]:
  "np_mul (map f ps) (map g ps) = Inr (map (\<lambda>p. f p * g p) ps)"
  by (simp add: np_mul_def broadcast_arrays_def zip_map_map zip_same_conv_map)

lemma scalar_add_map [simp]: "scalar_add k (map f ps) = map (\<lambda>p. k + f p) ps"
  by (simp add: scalar_add_def)

lemma scalar_mul_map [simp]: "scalar_mul k (map f ps) = map (\<lambda>p. k * f p) ps"
  by (simp add: scalar_mul_def)

lemma np_power_map [simp]: "np_power (map f ps) n = map (\<lambda>p. f p ^ n) ps"
  by (simp add: np_power_def)

lemma cubic_poly_map:
  "cubic_poly (map f ps) a b c d =
     Inr (map (\<lambda>p. a + b * f p + c * (f p)\<^sup>2 + d * f p ^ 3) ps)"
  by (simp add: cubic_poly_def)

lemma cubic_poly_derivative_map:
  "cubic_poly_derivative (map f ps) b c d =
     Inr (map (\<lambda>p. b + 2 * c * f p + 3 * d * (f p)\<^sup>2) ps)"
  by (simp add: cubic_poly_derivative_def)

lemma ones_like_map [simp]: "ones_like (map f ps) = map (\<lambda>_. 1) ps"
  by (simp add: ones_like_def)

lemma zeros_like_map [simp]: "zeros_like (map f ps) = map (\<lambda>_. 0) ps"
  by (simp add: zeros_like_def)

lemma where_less_map [simp]:
  "where_less (map f ps) k v = map (\<lambda>p. if f p < k then v else f p) ps"
  by (simp add: where_less_def)

lemma np_sqrt_map:
  "(\<And>p. 0 \<le> f p) \<Longrightarrow> np_sqrt (map f ps) = Inr (map (\<lambda>p. sqrt (f p)) ps)"
  by (simp add: np_sqrt_def list_ex_iff not_less)

lemma np_idiv_map:
  "(\<And>p. g p \<noteq> 0) \<Longrightarrow>
   np_idiv (map f ps) (map g ps) = Inr (map (\<lambda>p. f p / g p) ps)"
  by (simp add: np_idiv_def broadcast_to_def list_ex_iff zip_map_map zip_same_conv_map)

lemma norm3_map:
  "norm3 (map f ps) (map g ps) (map h ps) =
     Inr (map (\<lambda>p. sqrt (f p * f p + g p * g p + h p * h p)) ps)"
  by (simp add: norm3_def np_sqrt_map)

lemma divide3_map:
  "(\<And>p. n p \<noteq> 0) \<Longrightarrow>
   divide3 (map f ps) (map g ps) (map h ps) (map n ps) =
     Inr (map (\<lambda>p. f p / n p) ps, map (\<lambda>p. g p / n p) ps, map (\<lambda>p. h p / n p) ps)"
  by (simp add: divide3_def np_idiv_map)

lemma vstack_map [simp]: "vstack (map f ps) (map g ps) = Inr [map f ps, map g ps]"
  by (simp add: vstack_def)

section \<open>Arithmetic of one sample\<close>

lemma small_pos: "0 < small"
  by (simp add: small_def)

lemma one_le_sum_squares: "1 \<le> 1 + x * x + y * (y::real)"
  using zero_le_square [of x] zero_le_square [of y] by linarith

lemma one_le_tangent_norm: "1 \<le> sqrt (1 + x * x + y * y)"
  using one_le_sum_squares [of x y] real_sqrt_ge_one by blast

lemma unit_after_division:
  fixes x y z n :: real
  assumes n: "0 < n" and q: "n\<^sup>2 = x * x + y * y + z * z"
  shows "sqrt ((x / n)\<^sup>2 + (y / n)\<^sup>2 + (z / n)\<^sup>2) = 1"
proof -
  have "(x / n)\<^sup>2 + (y / n)\<^sup>2 + (z / n)\<^sup>2 = (x * x + y * y + z * z) / n\<^sup>2"
    by (simp add: power_divide add_divide_distrib power2_eq_square)
  also have "\<dots> = n\<^sup>2 / n\<^sup>2"
    by (simp only: q)
  also have "\<dots> = 1"
    using n by simp
  finally show ?thesis
    by (simp only: real_sqrt_one)
qed

lemma tangent_unit:
  fixes y z :: real
  shows "sqrt ((1 / sqrt (1 + y * y + z * z))\<^sup>2 + (y / sqrt (1 + y * y + z * z))\<^sup>2
      + (z / sqrt (1 + y * y + z * z))\<^sup>2) = 1"
proof (rule unit_after_division)
  show "0 < sqrt (1 + y * y + z * z)"
    using one_le_tangent_norm [of y z] by linarith
  have "0 \<le> 1 + y * y + z * z"
    using one_le_sum_squares [of y z] by linarith
  then show "(sqrt (1 + y * y + z * z))\<^sup>2 = 1 * 1 + y * y + z * z"
    by simp
qed

lemma left_unit:
  fixes tx ty :: real
  assumes "small \<le> sqrt (ty * ty + tx * tx)"
  shows "sqrt ((- ty / sqrt (ty * ty + tx * tx))\<^sup>2 + (tx / sqrt (ty * ty + tx * tx))\<^sup>2
      + (0 / sqrt (ty * ty + tx * tx))\<^sup>2) = 1"
proof (rule unit_after_division)
  show "0 < sqrt (ty * ty + tx * tx)"
    using assms small_pos by linarith
  have "0 \<le> ty * ty + tx * tx"
    using zero_le_square [of ty] zero_le_square [of tx] by linarith
  then show "(sqrt (ty * ty + tx * tx))\<^sup>2 = - ty * - ty + tx * tx + 0 * 0"
    by simp
qed

lemma rail_distance:
  fixes x y z lx ly lz w :: real
  assumes "sqrt (lx\<^sup>2 + ly\<^sup>2 + lz\<^sup>2) = 1" and "0 \<le> w"
  shows "sqrt (((x + w / 2 * lx) - (x - w / 2 * lx))\<^sup>2
      + ((y + w / 2 * ly) - (y - w / 2 * ly))\<^sup>2
      + ((z + w / 2 * lz) - (z - w / 2 * lz))\<^sup>2) = w"
proof -
  have "((x + w / 2 * lx) - (x - w / 2 * lx))\<^sup>2 + ((y + w / 2 * ly) - (y - w / 2 * ly))\<^sup>2
      + ((z + w / 2 * lz) - (z - w / 2 * lz))\<^sup>2 = w\<^sup>2 * (lx\<^sup>2 + ly\<^sup>2 + lz\<^sup>2)"
    by (simp add: power2_eq_square algebra_simps)
  then have "sqrt (((x + w / 2 * lx) - (x - w / 2 * lx))\<^sup>2
      + ((y + w / 2 * ly) - (y - w / 2 * ly))\<^sup>2
      + ((z + w / 2 * lz) - (z - w / 2 * lz))\<^sup>2) = sqrt (w\<^sup>2) * sqrt (lx\<^sup>2 + ly\<^sup>2 + lz\<^sup>2)"
    by (simp only: real_sqrt_mult)
  also have "\<dots> = w"
    using assms by simp
  finally show ?thesis .
qed

section \<open>The steps of the frame builder on arrays of one length\<close>

lemma tangent_norm_map:
  "tangent_norm (map f ps) (map g ps) (map h ps) =
     Inr (map (\<lambda>p. sqrt (1 + g p * g p + h p * h p)) ps)"
  using norm3_map [where f = "\<lambda>_. 1" and ps = ps and g = g and h = h]
  by (simp add: tangent_norm_def)

lemma tangent_map:
  "tangent (map f ps) (map g ps) (map h ps) =
     Inr (map (\<lambda>p. 1 / sqrt (1 + g p * g p + h p * h p)) ps,
          map (\<lambda>p. g p / sqrt (1 + g p * g p + h p * h p)) ps,
          map (\<lambda>p. h p / sqrt (1 + g p * g p + h p * h p)) ps)"
proof -
  have nz: "sqrt (1 + g p * g p + h p * h p) \<noteq> 0" for p
    using one_le_tangent_norm [of "g p" "h p"] by linarith
  show ?thesis
    using divide3_map [where n = "\<lambda>p. sqrt (1 + g p * g p + h p * h p)" and ps = ps
        and f = "\<lambda>_. 1" and g = g and h = h] nz
    by (simp add: tangent_def tangent_norm_map)
qed

lemma left_candidate_map:
  "left_candidate (map tx ps) (map ty ps) (map tz ps) =
     Inr (map (\<lambda>p. - ty p) ps, map tx ps, map (\<lambda>_. 0) ps)"
  by (simp add: left_candidate_def)

lemma left_norm_map:
  "left_norm (map f ps) (map g ps) (map h ps) =
     Inr (map (\<lambda>p. if sqrt (f p * f p + g p * g p + h p * h p) < small then 1
                    else sqrt (f p * f p + g p * g p + h p * h p)) ps)"
  by (simp add: left_norm_def norm3_map)

lemma left_vector_map:
  "left_vector (map tx ps) (map ty ps) (map tz ps) =
     Inr (map (\<lambda>p. - ty p / (if sqrt (ty p * ty p + tx p * tx p) < small then 1
                               else sqrt (ty p * ty p + tx p * tx p))) ps,
          map (\<lambda>p. tx p / (if sqrt (ty p * ty p + tx p * tx p) < small then 1
                             else sqrt (ty p * ty p + tx p * tx p))) ps,
          map (\<lambda>_. 0) ps)"
proof -
  let ?n = "\<lambda>p. if sqrt (ty p * ty p + tx p * tx p) < small then 1
                 else sqrt (ty p * ty p + tx p * tx p)"
  have nz: "?n p \<noteq> 0" for p
    using small_pos by auto
  have "left_norm (map (\<lambda>p. - ty p) ps) (map tx ps) (map (\<lambda>_. 0) ps) = Inr (map ?n ps)"
    using left_norm_map [where f = "\<lambda>p. - ty p" and ps = ps and g = tx and h = "\<lambda>_. 0"]
    by simp
  then show ?thesis
    using divide3_map [where n = ?n and ps = ps and f = "\<lambda>p. - ty p" and g = tx
        and h = "\<lambda>_. 0"] nz
    by (simp add: left_vector_def left_candidate_map)
qed

lemma tangent_norm_eq:
  assumes "length dYds = length s" and "length dZds = length s"
  shows "tangent_norm s dYds dZds =
     Inr (map (\<lambda>i. sqrt (1 + dYds ! i * dYds ! i + dZds ! i * dZds ! i)) [0..<length s])"
proof -
  let ?ps = "[0..<length s]"
  have y: "map (nth dYds) ?ps = dYds" and z: "map (nth dZds) ?ps = dZds"
    using assms by (metis map_nth)+
  have "tangent_norm (map (nth s) ?ps) (map (nth dYds) ?ps) (map (nth dZds) ?ps) =
      Inr (map (\<lambda>i. sqrt (1 + dYds ! i * dYds ! i + dZds ! i * dZds ! i)) ?ps)"
    by (rule tangent_norm_map)
  then show ?thesis
    by (simp only: y z map_nth)
qed

lemma tangent_eq:
  assumes "length dYds = length s" and "length dZds = length s"
  shows "tangent s dYds dZds =
     Inr (map (\<lambda>i. 1 / sqrt (1 + dYds ! i * dYds ! i + dZds ! i * dZds ! i)) [0..<length s],
          map (\<lambda>i. dYds ! i / sqrt (1 + dYds ! i * dYds ! i + dZds ! i * dZds ! i))
            [0..<length s],
          map (\<lambda>i. dZds ! i / sqrt (1 + dYds ! i * dYds ! i + dZds ! i * dZds ! i))
            [0..<length s])"
proof -
  let ?ps = "[0..<length s]"
  have y: "map (nth dYds) ?ps = dYds" and z: "map (nth dZds) ?ps = dZds"
    using assms by (metis map_nth)+
  have "tangent (map (nth s) ?ps) (map (nth dYds) ?ps) (map (nth dZds) ?ps) =
     Inr (map (\<lambda>i. 1 / sqrt (1 + dYds ! i * dYds ! i + dZds ! i * dZds ! i)) ?ps,
          map (\<lambda>i. dYds ! i / sqrt (1 + dYds ! i * dYds ! i + dZds ! i * dZds ! i)) ?ps,
          map (\<lambda>i. dZds ! i / sqrt (1 + dYds ! i * dYds ! i + dZds ! i * dZds ! i)) ?ps)"
    by (rule tangent_map)
  then show ?thesis
    by (simp only: y z map_nth)
qed

lemma cubic_poly_eq:
  "cubic_poly s a b c d = Inr (map (\<lambda>x. a + b * x + c * x\<^sup>2 + d * x ^ 3) s)"
  using cubic_poly_map [of "\<lambda>x. x" s a b c d] by simp

lemma cubic_poly_derivative_eq:
  "cubic_poly_derivative s b c d = Inr (map (\<lambda>x. b + 2 * c * x + 3 * d * x\<^sup>2) s)"
  using cubic_poly_derivative_map [of "\<lambda>x. x" s b c d] by simp

lemma build_centerline_steps:
  assumes "lateral_arrays s lf = (Yc, dYds)" and "cubic_poly s a b c d = Inr Zc"
    and "cubic_poly_derivative s b c d = Inr dZds"
    and "tangent s dYds dZds = Inr (Tx, Ty, Tz)"
    and "left_vector Tx Ty Tz = Inr (Lx, Ly, Lz)"
  shows "build_centerline s a b c d lf = Inr (s, Yc, Zc, Lx, Ly, Lz)"
  using assms by (simp add: build_centerline_def)

section \<open>The tangent lines with the range of float64\<close>

lemma threshold_gt_one: "1 < overflow_threshold"
  by (simp add: overflow_threshold_def)

lemma store_Finite: "- overflow_threshold < x \<Longrightarrow> x < overflow_threshold \<Longrightarrow> store x = Finite x"
  by (simp add: store_def)

lemma store_PosInf: "overflow_threshold \<le> x \<Longrightarrow> store x = PosInf"
  by (simp add: store_def)

lemma np_mul_f64_map:
  "np_mul_f64 (map f ps) (map g ps) = Inr (map (\<lambda>p. f64_mul (f p) (g p)) ps)"
  by (simp add: np_mul_f64_def broadcast_arrays_def zip_map_map zip_same_conv_map)

lemma np_add_f64_map:
  "np_add_f64 (map f ps) (map g ps) = Inr (map (\<lambda>p. f64_add (f p) (g p)) ps)"
  by (simp add: np_add_f64_def broadcast_arrays_def zip_map_map zip_same_conv_map)

lemma those_map_Some: "those (map (\<lambda>p. Some (h p)) ps) = Some (map h ps)"
  by (induction ps) simp_all

lemma np_idiv_f64_map:
  assumes "\<And>p. f64_div (f p) (g p) = Some (h p)"
  shows "np_idiv_f64 (map f ps) (map g ps) = Inr (map h ps)"
proof -
  have "map (\<lambda>(x, y). f64_div x y) (zip (map f ps) (map g ps)) = map (\<lambda>p. Some (h p)) ps"
    by (induction ps) (simp_all add: assms)
  then show ?thesis
    by (simp add: np_idiv_f64_def broadcast_to_def those_map_Some)
qed

lemma norm3_f64_map:
  "norm3_f64 (map f ps) (map g ps) (map h ps) =
     Inr (map (\<lambda>p. f64_sqrt (f64_add (f64_add (f64_mul (f p) (f p)) (f64_mul (g p) (g p)))
                                (f64_mul (h p) (h p)))) ps)"
  by (simp add: norm3_f64_def np_mul_f64_map np_add_f64_map np_sqrt_f64_def)

lemma divide3_f64_map:
  assumes "\<And>p. f64_div (f p) (n p) = Some (f' p)"
    and "\<And>p. f64_div (g p) (n p) = Some (g' p)"
    and "\<And>p. f64_div (h p) (n p) = Some (h' p)"
  shows "divide3_f64 (map f ps) (map g ps) (map h ps) (map n ps) =
     Inr (map f' ps, map g' ps, map h' ps)"
  by (simp add: divide3_f64_def np_idiv_f64_map [where h = f', OF assms(1)]
      np_idiv_f64_map [where h = g', OF assms(2)] np_idiv_f64_map [where h = h', OF assms(3)])

lemma norm_sample_finite:
  fixes dy dz :: real
  assumes "1 + dy * dy + dz * dz < overflow_threshold"
  shows "f64_sqrt (f64_add (f64_add (f64_mul (Finite 1) (Finite 1))
             (f64_mul (Finite dy) (Finite dy))) (f64_mul (Finite dz) (Finite dz))) =
         Finite (sqrt (1 + dy * dy + dz * dz))"
proof -
  have y: "0 \<le> dy * dy" and z: "0 \<le> dz * dz"
    by simp_all
  have pos: "0 < overflow_threshold"
    using threshold_gt_one by linarith
  have 1: "store (1 * 1) = Finite 1"
    using threshold_gt_one pos by (simp add: store_def)
  have 2: "store (dy * dy) = Finite (dy * dy)"
    using y z assms pos by (intro store_Finite) linarith+
  have 3: "store (dz * dz) = Finite (dz * dz)"
    using y z assms pos by (intro store_Finite) linarith+
  have 4: "store (1 + dy * dy) = Finite (1 + dy * dy)"
    using y z assms pos by (intro store_Finite) linarith+
  have 5: "store (1 + dy * dy + dz * dz) = Finite (1 + dy * dy + dz * dz)"
    using y z assms pos by (intro store_Finite) linarith+
  have "\<not> 1 + dy * dy + dz * dz < 0"
    using y z by linarith
  then show ?thesis
    using 1 by (simp only: f64_mul.simps f64_add.simps f64_sqrt.simps 2 3 4 5 if_False)
qed

lemma store_nonneg: "0 \<le> x \<Longrightarrow> store x = Finite x \<or> store x = PosInf"
  using threshold_gt_one by (auto simp: store_def)

lemma norm_sample_overflow:
  fixes dy dz :: real
  assumes "overflow_threshold \<le> 1 + dy * dy + dz * dz"
  shows "f64_sqrt (f64_add (f64_add (f64_mul (Finite 1) (Finite 1))
             (f64_mul (Finite dy) (Finite dy))) (f64_mul (Finite dz) (Finite dz))) = PosInf"
proof -
  have y: "0 \<le> dy * dy" and z: "0 \<le> dz * dz"
    by simp_all
  have pos: "0 < overflow_threshold"
    using threshold_gt_one by linarith
  have 1: "store (1 * 1) = Finite 1"
    using threshold_gt_one pos by (simp add: store_def)
  have yy: "store (dy * dy) = Finite (dy * dy) \<or> store (dy * dy) = PosInf"
    by (rule store_nonneg) (rule y)
  have zz: "store (dz * dz) = Finite (dz * dz) \<or> store (dz * dz) = PosInf"
    by (rule store_nonneg) (rule z)
  have "0 \<le> 1 + dy * dy"
    using y by linarith
  then have s1: "store (1 + dy * dy) = Finite (1 + dy * dy) \<or> store (1 + dy * dy) = PosInf"
    by (rule store_nonneg)
  show ?thesis
  proof (cases "store (dy * dy) = PosInf")
    case True
    then show ?thesis
      using 1 zz by auto
  next
    case False
    with yy have a: "store (dy * dy) = Finite (dy * dy)"
      by blast
    show ?thesis
    proof (cases "store (1 + dy * dy) = PosInf")
      case True
      then show ?thesis
        using 1 a zz by auto
    next
      case False
      with s1 have b: "store (1 + dy * dy) = Finite (1 + dy * dy)"
        by blast
      show ?thesis
      proof (cases "store (dz * dz) = PosInf")
        case True
        then show ?thesis
          using 1 a b by simp
      next
        case False
        with zz have c: "store (dz * dz) = Finite (dz * dz)"
          by blast
        show ?thesis
          using 1 a b c assms by (simp add: store_PosInf)
      qed
    qed
  qed
qed

lemma abs_le_tangent_norm:
  fixes dy dz :: real
  shows "\<bar>dy\<bar> \<le> sqrt (1 + dy * dy + dz * dz)" and "\<bar>dz\<bar> \<le> sqrt (1 + dy * dy + dz * dz)"
proof -
  have "dy\<^sup>2 \<le> 1 + dy * dy + dz * dz"
    by (simp add: power2_eq_square)
  then show "\<bar>dy\<bar> \<le> sqrt (1 + dy * dy + dz * dz)"
    by (rule real_le_rsqrt [of "\<bar>dy\<bar>", simplified])
  have "dz\<^sup>2 \<le> 1 + dy * dy + dz * dz"
    using zero_le_square [of dy] by (simp add: power2_eq_square)
  then show "\<bar>dz\<bar> \<le> sqrt (1 + dy * dy + dz * dz)"
    by (rule real_le_rsqrt [of "\<bar>dz\<bar>", simplified])
qed

lemma div_by_norm_finite:
  fixes x n :: real
  assumes "\<bar>x\<bar> \<le> n" and "1 \<le> n"
  shows "f64_div (Finite x) (Finite n) = Some (Finite (x / n))"
proof -
  have "\<bar>x / n\<bar> \<le> 1"
    using assms by simp
  then have "- overflow_threshold < x / n" and "x / n < overflow_threshold"
    using threshold_gt_one by linarith+
  then have "store (x / n) = Finite (x / n)"
    by (rule store_Finite)
  then show ?thesis
    using assms(2) by simp
qed


lemma div_by_sample_norm:
  fixes x dy dz :: real
  assumes "\<bar>x\<bar> \<le> sqrt (1 + dy * dy + dz * dz)"
  shows "f64_div (Finite x)
           (f64_sqrt (f64_add (f64_add (f64_mul (Finite 1) (Finite 1))
              (f64_mul (Finite dy) (Finite dy))) (f64_mul (Finite dz) (Finite dz)))) =
         Some (if 1 + dy * dy + dz * dz < overflow_threshold
               then Finite (x / sqrt (1 + dy * dy + dz * dz)) else Finite 0)"
proof (cases "1 + dy * dy + dz * dz < overflow_threshold")
  case True
  then show ?thesis
    using div_by_norm_finite [OF assms one_le_tangent_norm [of dy dz] ]
    by (simp only: norm_sample_finite if_True)
next
  case False
  then have "overflow_threshold \<le> 1 + dy * dy + dz * dz"
    by simp
  then show ?thesis
    using False by (simp only: norm_sample_overflow f64_div.simps if_False)
qed

lemma tangent_f64_eq:
  assumes "length dYds = length s" and "length dZds = length s"
  shows "tangent_f64 s (map Finite dYds) (map Finite dZds) =
     Inr (map (\<lambda>i. if 1 + dYds ! i * dYds ! i + dZds ! i * dZds ! i < overflow_threshold
                   then Finite (1 / sqrt (1 + dYds ! i * dYds ! i + dZds ! i * dZds ! i))
                   else Finite 0) [0..<length s],
          map (\<lambda>i. if 1 + dYds ! i * dYds ! i + dZds ! i * dZds ! i < overflow_threshold
                   then Finite (dYds ! i / sqrt (1 + dYds ! i * dYds ! i + dZds ! i * dZds ! i))
                   else Finite 0) [0..<length s],
          map (\<lambda>i. if 1 + dYds ! i * dYds ! i + dZds ! i * dZds ! i < overflow_threshold
                   then Finite (dZds ! i / sqrt (1 + dYds ! i * dYds ! i + dZds ! i * dZds ! i))
                   else Finite 0) [0..<length s])"
proof -
  let ?ps = "[0..<length s]"
  let ?n = "\<lambda>i. f64_sqrt (f64_add (f64_add (f64_mul (Finite 1) (Finite 1))
      (f64_mul (Finite (dYds ! i)) (Finite (dYds ! i))))
      (f64_mul (Finite (dZds ! i)) (Finite (dZds ! i))))"
  have o: "ones_like_f64 s = map (\<lambda>_. Finite 1) ?ps"
    by (simp add: ones_like_f64_def map_replicate_const)
  have "map (nth dYds) ?ps = dYds" and "map (nth dZds) ?ps = dZds"
    using assms by (metis map_nth)+
  then have "map Finite (map (nth dYds) ?ps) = map Finite dYds"
    and "map Finite (map (nth dZds) ?ps) = map Finite dZds"
    by simp_all
  then have y: "map Finite dYds = map (\<lambda>i. Finite (dYds ! i)) ?ps"
    and z: "map Finite dZds = map (\<lambda>i. Finite (dZds ! i)) ?ps"
    by (simp_all add: comp_def)
  have n: "norm3_f64 (map (\<lambda>_. Finite 1) ?ps) (map (\<lambda>i. Finite (dYds ! i)) ?ps)
      (map (\<lambda>i. Finite (dZds ! i)) ?ps) = Inr (map ?n ?ps)"
    by (rule norm3_f64_map)
  have one: "\<bar>1\<bar> \<le> sqrt (1 + dy * dy + dz * dz)" for dy dz :: real
    using one_le_tangent_norm [of dy dz] by simp
  have d: "divide3_f64 (map (\<lambda>_. Finite 1) ?ps) (map (\<lambda>i. Finite (dYds ! i)) ?ps)
      (map (\<lambda>i. Finite (dZds ! i)) ?ps) (map ?n ?ps) =
     Inr (map (\<lambda>i. if 1 + dYds ! i * dYds ! i + dZds ! i * dZds ! i < overflow_threshold
                   then Finite (1 / sqrt (1 + dYds ! i * dYds ! i + dZds ! i * dZds ! i))
                   else Finite 0) ?ps,
          map (\<lambda>i. if 1 + dYds ! i * dYds ! i + dZds ! i * dZds ! i < overflow_threshold
                   then Finite (dYds ! i / sqrt (1 + dYds ! i * dYds ! i + dZds ! i * dZds ! i))
                   else Finite 0) ?ps,
          map (\<lambda>i. if 1 + dYds ! i * dYds ! i + dZds ! i * dZds ! i < overflow_threshold
                   then Finite (dZds ! i / sqrt (1 + dYds ! i * dYds ! i + dZds ! i * dZds ! i))
                   else Finite 0) ?ps)"
    by (rule divide3_f64_map)
      (rule div_by_sample_norm, rule one abs_le_tangent_norm)+
  show ?thesis
    by (simp only: tangent_f64_def o y z n and_then_Inr d)
qed

lemma tangent_unit_sq:
  fixes y z :: real
  shows "(1 / sqrt (1 + y * y + z * z))\<^sup>2 + (y / sqrt (1 + y * y + z * z))\<^sup>2
      + (z / sqrt (1 + y * y + z * z))\<^sup>2 = 1"
  using tangent_unit [of y z] by (simp only: real_sqrt_eq_1_iff)

lemma tangent_f64_in_range:
  assumes "length dYds = length s" and "length dZds = length s"
    and "\<And>i. i < length s \<Longrightarrow>
           1 + dYds ! i * dYds ! i + dZds ! i * dZds ! i < overflow_threshold"
  shows "\<exists>Tx Ty Tz. tangent s dYds dZds = Inr (Tx, Ty, Tz)
     \<and> tangent_f64 s (map Finite dYds) (map Finite dZds) =
         Inr (map Finite Tx, map Finite Ty, map Finite Tz)"
  by (intro exI conjI, rule tangent_eq [OF assms(1,2)])
    (simp add: tangent_f64_eq [OF assms(1,2)] assms(3))

section \<open>The mesh extruder on arrays of one length\<close>

lemma mesh_map:
  "make_road_mesh (map xc ps) (map yc ps) (map zc ps) (map lx ps) (map ly ps) (map lz ps) w =
     Inr ([map (\<lambda>p. xc p + w / 2 * lx p) ps, map (\<lambda>p. xc p - w / 2 * lx p) ps],
          [map (\<lambda>p. yc p + w / 2 * ly p) ps, map (\<lambda>p. yc p - w / 2 * ly p) ps],
          [map (\<lambda>p. zc p + w / 2 * lz p) ps, map (\<lambda>p. zc p - w / 2 * lz p) ps])"
  by (simp add: make_road_mesh_def)

lemma mesh_eq:
  assumes "length Yc = length Xc" and "length Zc = length Xc" and "length Lx = length Xc"
    and "length Ly = length Xc" and "length Lz = length Xc"
  shows "make_road_mesh Xc Yc Zc Lx Ly Lz w =
     Inr ([map (\<lambda>i. Xc ! i + w / 2 * Lx ! i) [0..<length Xc],
           map (\<lambda>i. Xc ! i - w / 2 * Lx ! i) [0..<length Xc] ],
          [map (\<lambda>i. Yc ! i + w / 2 * Ly ! i) [0..<length Xc],
           map (\<lambda>i. Yc ! i - w / 2 * Ly ! i) [0..<length Xc] ],
          [map (\<lambda>i. Zc ! i + w / 2 * Lz ! i) [0..<length Xc],
           map (\<lambda>i. Zc ! i - w / 2 * Lz ! i) [0..<length Xc] ])"
proof -
  let ?ps = "[0..<length Xc]"
  have e: "map (nth Yc) ?ps = Yc" "map (nth Zc) ?ps = Zc" "map (nth Lx) ?ps = Lx"
    "map (nth Ly) ?ps = Ly" "map (nth Lz) ?ps = Lz"
    using assms by (metis map_nth)+
  have "make_road_mesh (map (nth Xc) ?ps) (map (nth Yc) ?ps) (map (nth Zc) ?ps)
      (map (nth Lx) ?ps) (map (nth Ly) ?ps) (map (nth Lz) ?ps) w =
     Inr ([map (\<lambda>i. Xc ! i + w / 2 * Lx ! i) ?ps, map (\<lambda>i. Xc ! i - w / 2 * Lx ! i) ?ps],
          [map (\<lambda>i. Yc ! i + w / 2 * Ly ! i) ?ps, map (\<lambda>i. Yc ! i - w / 2 * Ly ! i) ?ps],
          [map (\<lambda>i. Zc ! i + w / 2 * Lz ! i) ?ps, map (\<lambda>i. Zc ! i - w / 2 * Lz ! i) ?ps])"
    by (rule mesh_map)
  then show ?thesis
    by (simp only: e map_nth)
qed

section \<open>The curve evaluator\<close>



section \<open>The mesh extruder\<close>

text \<open>
  C2, as the specification states it: a width of \<open>0\<close> or \<open>-1\<close> makes the extrusion
  report an error and produce no mesh. \<^verbatim>\<open>make_road_mesh\<close> has no check of the width:
  at both widths it returns a mesh. At width \<open>0\<close> both rails lie on the centerline,
  at width \<open>-1\<close> the two rails have changed sides.
\<close>

theorem invalid_width_accepted:
  "make_road_mesh [0] [0] [0] [0] [1] [0] 0 = Inr ([ [0], [0] ], [ [0], [0] ], [ [0], [0] ])
   \<and> make_road_mesh [0] [0] [0] [0] [1] [0] (- 1) =
       Inr ([ [0], [0] ], [ [- 1 / 2], [1 / 2] ], [ [0], [0] ])"
  by (simp add: make_road_mesh_def np_add_def np_sub_def broadcast_arrays_def scalar_mul_def
      vstack_def)

text \<open>
  C2, amended. The extrusion does not look at the sign of the width: for every real
  width, \<open>0\<close> and \<open>-1\<close> among them, and arrays of one length it reports no error and
  returns a mesh; at width \<open>0\<close> both rows of the mesh are the centerline.
\<close>

theorem no_width_check:
  assumes "length Yc = length Xc" and "length Zc = length Xc" and "length Lx = length Xc"
    and "length Ly = length Xc" and "length Lz = length Xc"
  shows "(\<exists>mesh. make_road_mesh Xc Yc Zc Lx Ly Lz width = Inr mesh)
     \<and> make_road_mesh Xc Yc Zc Lx Ly Lz 0 = Inr ([Xc, Xc], [Yc, Yc], [Zc, Zc])"
proof
  show "\<exists>mesh. make_road_mesh Xc Yc Zc Lx Ly Lz width = Inr mesh"
    by (rule exI, rule mesh_eq [OF assms])
  have "map (nth Yc) [0..<length Xc] = Yc" and "map (nth Zc) [0..<length Xc] = Zc"
    using assms by (metis map_nth)+
  then show "make_road_mesh Xc Yc Zc Lx Ly Lz 0 = Inr ([Xc, Xc], [Yc, Yc], [Zc, Zc])"
    by (simp add: mesh_eq [OF assms] map_nth)
qed

theorem no_width_check_witness:
  "(\<exists>mesh. make_road_mesh [0, 1] [2, 3] [4, 5] [0, 0] [1, 1] [0, 0] (- 1) = Inr mesh)
   \<and> make_road_mesh [0, 1] [2, 3] [4, 5] [0, 0] [1, 1] [0, 0] 0 =
       Inr ([ [0, 1], [0, 1] ], [ [2, 3], [2, 3] ], [ [4, 5], [4, 5] ])"
  using no_width_check [of "[2, 3]" "[0, 1]" "[4, 5]" "[0, 0]" "[1, 1]" "[0, 0]" "- 1"]
  by simp

text \<open>
  C6. With \<open>half = width / 2\<close>, the extrusion of six arrays of length \<open>N\<close> returns, for
  each coordinate, a grid of two rows and \<open>N\<close> columns: row \<open>0\<close> is the left rail,
  \<open>centerline + half * L\<close>, and row \<open>1\<close> the right rail, \<open>centerline - half * L\<close>, in
  every column and every coordinate.
\<close>

theorem mesh_rails:
  assumes "length Yc = length Xc" and "length Zc = length Xc" and "length Lx = length Xc"
    and "length Ly = length Xc" and "length Lz = length Xc"
  shows "\<exists>X Y Z. make_road_mesh Xc Yc Zc Lx Ly Lz width = Inr (X, Y, Z)
     \<and> length X = 2 \<and> length Y = 2 \<and> length Z = 2
     \<and> length (X ! 0) = length Xc \<and> length (X ! 1) = length Xc
     \<and> length (Y ! 0) = length Xc \<and> length (Y ! 1) = length Xc
     \<and> length (Z ! 0) = length Xc \<and> length (Z ! 1) = length Xc
     \<and> (\<forall>j < length Xc.
          X ! 0 ! j = Xc ! j + width / 2 * Lx ! j
        \<and> Y ! 0 ! j = Yc ! j + width / 2 * Ly ! j
        \<and> Z ! 0 ! j = Zc ! j + width / 2 * Lz ! j
        \<and> X ! 1 ! j = Xc ! j - width / 2 * Lx ! j
        \<and> Y ! 1 ! j = Yc ! j - width / 2 * Ly ! j
        \<and> Z ! 1 ! j = Zc ! j - width / 2 * Lz ! j)"
  by (intro exI conjI, rule mesh_eq [OF assms]) simp_all

theorem mesh_rails_witness:
  "\<exists>X Y Z. make_road_mesh [0, 1] [2, 3] [4, 5] [0, 0] [1, 1] [0, 0] 6 = Inr (X, Y, Z)
     \<and> length X = 2 \<and> length (X ! 0) = 2 \<and> length (X ! 1) = 2
     \<and> X ! 0 ! 1 = 1 \<and> Y ! 0 ! 1 = 6 \<and> Z ! 0 ! 1 = 5
     \<and> X ! 1 ! 1 = 1 \<and> Y ! 1 ! 1 = 0 \<and> Z ! 1 ! 1 = 5"
  using mesh_rails [of "[2, 3]" "[0, 1]" "[4, 5]" "[0, 0]" "[1, 1]" "[0, 0]" 6]
  by (auto simp: less_Suc_eq numeral_2_eq_2)

text \<open>
  C7. For a width that is not negative (the specification's widths are positive) and
  every column whose left vector has norm \<open>1\<close>, the distance between the point of the
  left rail and the point of the right rail is the width.
\<close>

theorem rail_separation:
  assumes "length Yc = length Xc" and "length Zc = length Xc" and "length Lx = length Xc"
    and "length Ly = length Xc" and "length Lz = length Xc" and "0 \<le> width"
  shows "\<exists>X Y Z. make_road_mesh Xc Yc Zc Lx Ly Lz width = Inr (X, Y, Z)
     \<and> (\<forall>j < length Xc. sqrt ((Lx ! j)\<^sup>2 + (Ly ! j)\<^sup>2 + (Lz ! j)\<^sup>2) = 1 \<longrightarrow>
          sqrt ((X ! 0 ! j - X ! 1 ! j)\<^sup>2 + (Y ! 0 ! j - Y ! 1 ! j)\<^sup>2
            + (Z ! 0 ! j - Z ! 1 ! j)\<^sup>2) = width)"
  apply (intro exI conjI)
   apply (rule mesh_eq [OF assms(1-5)])
  apply (intro allI impI)
  subgoal for j
    using rail_distance [of "Lx ! j" "Ly ! j" "Lz ! j" width "Xc ! j" "Yc ! j" "Zc ! j"] assms(6)
    by simp
  done

theorem rail_separation_witness:
  "\<exists>X Y Z. make_road_mesh [0, 1] [2, 3] [4, 5] [0, 0] [1, 1] [0, 0] 6 = Inr (X, Y, Z)
     \<and> sqrt ((X ! 0 ! 1 - X ! 1 ! 1)\<^sup>2 + (Y ! 0 ! 1 - Y ! 1 ! 1)\<^sup>2
          + (Z ! 0 ! 1 - Z ! 1 ! 1)\<^sup>2) = 6"
  using rail_separation [of "[2, 3]" "[0, 1]" "[4, 5]" "[0, 0]" "[1, 1]" "[0, 0]" 6]
  by (auto simp: less_Suc_eq numeral_2_eq_2)

text \<open>
  C9. For every width and every left vector, of norm \<open>1\<close> or not, the midpoint of the
  two rail points of a column is the centerline point of that column, in each
  coordinate.
\<close>

theorem rail_midpoint:
  assumes "length Yc = length Xc" and "length Zc = length Xc" and "length Lx = length Xc"
    and "length Ly = length Xc" and "length Lz = length Xc"
  shows "\<exists>X Y Z. make_road_mesh Xc Yc Zc Lx Ly Lz width = Inr (X, Y, Z)
     \<and> (\<forall>j < length Xc.
          (X ! 0 ! j + X ! 1 ! j) / 2 = Xc ! j
        \<and> (Y ! 0 ! j + Y ! 1 ! j) / 2 = Yc ! j
        \<and> (Z ! 0 ! j + Z ! 1 ! j) / 2 = Zc ! j)"
  by (intro exI conjI, rule mesh_eq [OF assms]) simp_all

theorem rail_midpoint_witness:
  "\<exists>X Y Z. make_road_mesh [0, 1] [2, 3] [4, 5] [1 / 1000, 7] [0, - 2] [0, 9] (- 3) = Inr (X, Y, Z)
     \<and> (X ! 0 ! 1 + X ! 1 ! 1) / 2 = 1
     \<and> (Y ! 0 ! 1 + Y ! 1 ! 1) / 2 = 3
     \<and> (Z ! 0 ! 1 + Z ! 1 ! 1) / 2 = 5"
  using rail_midpoint [of "[2, 3]" "[0, 1]" "[4, 5]" "[1 / 1000, 7]" "[0, - 2]" "[0, 9]" "- 3"]
  by (auto simp: less_Suc_eq numeral_2_eq_2)

section \<open>The frame builder\<close>

text \<open>
  C4, as the specification states it: for every sample with finite inputs the tangent
  has unit norm. The squares of line 64 are computed in float64: at the finite slope
  \<open>2\<^sup>6\<^sup>0\<^sup>0\<close> (about \<open>4.1e180\<close>, a float64) the product \<open>Tz * Tz\<close> is infinite, so
  is \<open>Tnorm\<close>, and the three divisions of line 65 give the tangent \<open>(0, 0, 0)\<close>, of
  norm \<open>0\<close>.
\<close>

theorem tangent_overflow:
  "tangent_f64 [0] [Finite 0] [Finite (2 ^ 600)] = Inr ([Finite 0], [Finite 0], [Finite 0])
   \<and> sqrt (0\<^sup>2 + 0\<^sup>2 + 0\<^sup>2) \<noteq> (1::real)"
  by (simp add: tangent_f64_def norm3_f64_def divide3_f64_def np_mul_f64_def np_add_f64_def
      np_sqrt_f64_def np_idiv_f64_def ones_like_f64_def broadcast_arrays_def broadcast_to_def
      store_def overflow_threshold_def)

text \<open>
  C4, amended. For sample, lateral-derivative and elevation-derivative arrays of one
  length and every sample at which the sum \<open>1 + (dy/ds)\<^sup>2 + (dz/ds)\<^sup>2\<close> of line 64 stays
  inside the range of float64 (below \<open>2\<^sup>1\<^sup>0\<^sup>2\<^sup>4 - 2\<^sup>9\<^sup>7\<^sup>0\<close>), the tangent computed by the
  frame builder is \<open>(1, dy/ds, dz/ds) / \<parallel>(1, dy/ds, dz/ds)\<parallel>\<close>, and its norm is \<open>1\<close>.
\<close>

theorem tangent_unit_norm_in_range:
  assumes "length dYds = length s" and "length dZds = length s"
  shows "\<exists>Tx Ty Tz. tangent_f64 s (map Finite dYds) (map Finite dZds) = Inr (Tx, Ty, Tz)
     \<and> length Tx = length s \<and> length Ty = length s \<and> length Tz = length s
     \<and> (\<forall>i < length s.
          1 + dYds ! i * dYds ! i + dZds ! i * dZds ! i < overflow_threshold \<longrightarrow>
          (\<exists>tx ty tz. Tx ! i = Finite tx \<and> Ty ! i = Finite ty \<and> Tz ! i = Finite tz
             \<and> tx = 1 / sqrt (1 + dYds ! i * dYds ! i + dZds ! i * dZds ! i)
             \<and> ty = dYds ! i / sqrt (1 + dYds ! i * dYds ! i + dZds ! i * dZds ! i)
             \<and> tz = dZds ! i / sqrt (1 + dYds ! i * dYds ! i + dZds ! i * dZds ! i)
             \<and> sqrt (tx\<^sup>2 + ty\<^sup>2 + tz\<^sup>2) = 1))"
  by (intro exI conjI, rule tangent_f64_eq [OF assms]) (simp_all add: tangent_unit_sq)

theorem tangent_unit_norm_in_range_witness:
  "\<exists>Tx Ty Tz. tangent_f64 [0, 1] [Finite 2, Finite (3 / 4)] [Finite 2, Finite 3] =
       Inr (Tx, Ty, Tz)
     \<and> length Tx = 2
     \<and> Tx ! 0 = Finite (1 / 3) \<and> Ty ! 0 = Finite (2 / 3) \<and> Tz ! 0 = Finite (2 / 3)
     \<and> sqrt ((1 / 3)\<^sup>2 + (2 / 3)\<^sup>2 + (2 / 3)\<^sup>2) = (1::real)"
proof -
  have r: "sqrt 9 = 3"
    by (rule real_sqrt_unique) simp_all
  have "(9::real) < overflow_threshold"
    by (simp add: overflow_threshold_def)
  then show ?thesis
    using tangent_unit_norm_in_range [of "[2, 3 / 4]" "[0, 1]" "[2, 3]"] r
    by (auto simp: less_Suc_eq numeral_2_eq_2)
qed

text \<open>
  C10. The tangent normalisation never divides by zero: for arrays of one length the
  norm \<open>\<parallel>(1, dy/ds, dz/ds)\<parallel>\<close> is at least \<open>1\<close> at every sample, whatever the
  derivatives are, and the tangent computation returns a value.
\<close>

theorem tangent_norm_at_least_one:
  assumes "length dYds = length s" and "length dZds = length s"
  shows "\<exists>n T. tangent_norm s dYds dZds = Inr n \<and> length n = length s
     \<and> (\<forall>i < length s. n ! i = sqrt (1 + dYds ! i * dYds ! i + dZds ! i * dZds ! i)
            \<and> 1 \<le> n ! i)
     \<and> tangent s dYds dZds = Inr T"
  by (intro exI conjI, rule tangent_norm_eq [OF assms])
    (simp_all add: one_le_tangent_norm tangent_eq [OF assms])

theorem tangent_norm_at_least_one_witness:
  "\<exists>n T. tangent_norm [0, 1] [0, 3 / 4] [0, 3] = Inr n \<and> length n = 2
     \<and> n ! 0 = 1 \<and> n ! 1 = 13 / 4 \<and> 1 \<le> n ! 1
     \<and> tangent [0, 1] [0, 3 / 4] [0, 3] = Inr T"
proof -
  have "sqrt (169 / 16) = 13 / 4"
    by (rule real_sqrt_unique) (simp_all add: power2_eq_square)
  then show ?thesis
    using tangent_norm_at_least_one [of "[0, 3 / 4]" "[0, 1]" "[0, 3]"]
    by (auto simp: less_Suc_eq numeral_2_eq_2)
qed

text \<open>
  C5. Let the lateral function, if there is one, return a derivative array of the length
  of the sample array. Then \<^verbatim>\<open>build_centerline\<close> returns, and at every sample where the
  norm \<open>n\<close> of the left candidate \<open>L' = U \<times> T\<close> is at least the threshold the returned
  left vector has norm \<open>1\<close> and its dot product with the tangent is \<open>0\<close>.
\<close>

theorem left_unit_orthogonal:
  assumes "lateral_arrays s lf = (Yc, dYds)" and "length dYds = length s"
  shows "\<exists>Zc dZds Tx Ty Tz Lx' Ly' Lz' n Lx Ly Lz.
       build_centerline s a b c d lf = Inr (s, Yc, Zc, Lx, Ly, Lz)
     \<and> cubic_poly_derivative s b c d = Inr dZds
     \<and> tangent s dYds dZds = Inr (Tx, Ty, Tz)
     \<and> left_candidate Tx Ty Tz = Inr (Lx', Ly', Lz')
     \<and> norm3 Lx' Ly' Lz' = Inr n
     \<and> length n = length s
     \<and> length Lx = length s \<and> length Ly = length s \<and> length Lz = length s
     \<and> (\<forall>i < length s. small \<le> n ! i \<longrightarrow>
            sqrt ((Lx ! i)\<^sup>2 + (Ly ! i)\<^sup>2 + (Lz ! i)\<^sup>2) = 1
          \<and> Lx ! i * Tx ! i + Ly ! i * Ty ! i + Lz ! i * Tz ! i = 0)"
proof -
  let ?dZds = "map (\<lambda>x. b + 2 * c * x + 3 * d * x\<^sup>2) s"
  have len: "length ?dZds = length s"
    by simp
  note t = tangent_eq [OF assms(2) len]
  note bc = build_centerline_steps [OF assms(1) cubic_poly_eq cubic_poly_derivative_eq t
      left_vector_map]
  show ?thesis
    apply (intro exI conjI)
             apply (rule bc)
            apply (rule cubic_poly_derivative_eq)
           apply (rule t)
          apply (rule left_candidate_map)
         apply (rule norm3_map)
        apply (simp_all only: length_map length_upt diff_zero)
    apply (intro allI impI)
    subgoal for i
      using left_unit [of "dYds ! i / sqrt (1 + dYds ! i * dYds ! i + ?dZds ! i * ?dZds ! i)"
          "1 / sqrt (1 + dYds ! i * dYds ! i + ?dZds ! i * ?dZds ! i)"] small_pos
      by simp
    done
qed

text \<open>A slope of \<open>3/4\<close>: the tangent is \<open>(4/5, 0, 3/5)\<close> and the left vector \<open>(0, 1, 0)\<close>.\<close>

theorem left_unit_orthogonal_witness:
  "\<exists>Zc Lx Ly Lz. build_centerline [0] 0 (3 / 4) 0 0 None = Inr ([0], [0], Zc, Lx, Ly, Lz)
     \<and> sqrt ((Lx ! 0)\<^sup>2 + (Ly ! 0)\<^sup>2 + (Lz ! 0)\<^sup>2) = 1"
proof -
  have la: "lateral_arrays [0] None = ([0], [0])"
    by (simp add: lateral_arrays_def zeros_like_def)
  have r1: "sqrt (25 / 16) = 5 / 4"
    by (rule real_sqrt_unique) (simp_all add: power2_eq_square)
  have r2: "sqrt (16 / 25) = 4 / 5"
    by (rule real_sqrt_unique) (simp_all add: power2_eq_square)
  from left_unit_orthogonal [OF la refl, of 0 "3 / 4" 0 0]
  obtain Zc dZds Tx Ty Tz Lx' Ly' Lz' n Lx Ly Lz where
    bc: "build_centerline [0] 0 (3 / 4) 0 0 None = Inr ([0], [0], Zc, Lx, Ly, Lz)"
    and dz: "cubic_poly_derivative [0] (3 / 4) 0 0 = Inr dZds"
    and t: "tangent [0] [0] dZds = Inr (Tx, Ty, Tz)"
    and lc: "left_candidate Tx Ty Tz = Inr (Lx', Ly', Lz')"
    and nn: "norm3 Lx' Ly' Lz' = Inr n"
    and every: "\<forall>i < length [0::real]. small \<le> n ! i \<longrightarrow>
            sqrt ((Lx ! i)\<^sup>2 + (Ly ! i)\<^sup>2 + (Lz ! i)\<^sup>2) = 1
          \<and> Lx ! i * Tx ! i + Ly ! i * Ty ! i + Lz ! i * Tz ! i = 0"
    by (elim exE conjE) (rule that)
  have "0 < length [0::real]"
    by simp
  with every have imp: "small \<le> n ! 0 \<longrightarrow> sqrt ((Lx ! 0)\<^sup>2 + (Ly ! 0)\<^sup>2 + (Lz ! 0)\<^sup>2) = 1"
    by blast
  have "dZds = [3 / 4]"
    using dz by (simp add: cubic_poly_derivative_eq)
  then have "Tx = [4 / 5] \<and> Ty = [0] \<and> Tz = [3 / 5]"
    using t tangent_eq [of "[0]" "[0]" "[3 / 4]"] by (simp add: r1)
  then have "Lx' = [0] \<and> Ly' = [4 / 5] \<and> Lz' = [0]"
    using lc left_candidate_map [of "\<lambda>_. 4 / 5" "[0::nat]" "\<lambda>_. 0" "\<lambda>_. 3 / 5"] by simp
  then have "n = [4 / 5]"
    using nn norm3_map [of "\<lambda>_. 0" "[0::nat]" "\<lambda>_. 4 / 5" "\<lambda>_. 0"] by (simp add: r2)
  then have "small \<le> n ! 0"
    by (simp add: small_def)
  with imp bc show ?thesis
    by blast
qed

text \<open>
  C3. Let the lateral function, if there is one, return a derivative array of the length
  of the sample array. Then \<^verbatim>\<open>build_centerline\<close> raises no error and returns a value.
  The left candidate is \<open>L' = U \<times> T = (- T\<^sub>y, T\<^sub>x, 0)\<close> with norm \<open>n\<close>; at every sample
  where \<open>n\<close> is below the threshold \<open>small\<close> the norm \<open>m\<close> used in the division is exactly
  \<open>1\<close> and the returned left vector is the candidate \<open>L'\<close>, not normalised.
\<close>

theorem degenerate_frame_policy:
  assumes "lateral_arrays s lf = (Yc, dYds)" and "length dYds = length s"
  shows "\<exists>Zc dZds Tx Ty Tz Lx' Ly' Lz' n m Lx Ly Lz.
       build_centerline s a b c d lf = Inr (s, Yc, Zc, Lx, Ly, Lz)
     \<and> cubic_poly_derivative s b c d = Inr dZds
     \<and> tangent s dYds dZds = Inr (Tx, Ty, Tz)
     \<and> left_candidate Tx Ty Tz = Inr (Lx', Ly', Lz')
     \<and> norm3 Lx' Ly' Lz' = Inr n
     \<and> left_norm Lx' Ly' Lz' = Inr m
     \<and> length n = length s \<and> length m = length s
     \<and> length Lx = length s \<and> length Ly = length s \<and> length Lz = length s
     \<and> (\<forall>i < length s.
            Lx' ! i = - Ty ! i \<and> Ly' ! i = Tx ! i \<and> Lz' ! i = 0
          \<and> n ! i = sqrt ((Lx' ! i)\<^sup>2 + (Ly' ! i)\<^sup>2 + (Lz' ! i)\<^sup>2)
          \<and> (n ! i < small \<longrightarrow>
               m ! i = 1 \<and> Lx ! i = Lx' ! i \<and> Ly ! i = Ly' ! i \<and> Lz ! i = Lz' ! i))"
proof -
  let ?dZds = "map (\<lambda>x. b + 2 * c * x + 3 * d * x\<^sup>2) s"
  have len: "length ?dZds = length s"
    by simp
  note t = tangent_eq [OF assms(2) len]
  note bc = build_centerline_steps [OF assms(1) cubic_poly_eq cubic_poly_derivative_eq t
      left_vector_map]
  show ?thesis
    apply (intro exI conjI)
               apply (rule bc)
              apply (rule cubic_poly_derivative_eq)
             apply (rule t)
            apply (rule left_candidate_map)
           apply (rule norm3_map)
          apply (rule left_norm_map)
         apply (simp_all only: length_map length_upt diff_zero)
    apply (simp add: power2_eq_square)
    done
qed

text \<open>
  A slope of \<open>10\<^sup>9\<close>: the left candidate has norm \<open>1 / sqrt (1 + 10\<^sup>1\<^sup>8)\<close>, below the
  threshold, and is returned as it is.
\<close>

theorem degenerate_frame_policy_witness:
  "\<exists>Zc Lx Ly Lz. build_centerline [0] 0 1000000000 0 0 None = Inr ([0], [0], Zc, Lx, Ly, Lz)
     \<and> Lx ! 0 = 0 \<and> Ly ! 0 = 1 / sqrt 1000000000000000001 \<and> Lz ! 0 = 0
     \<and> Ly ! 0 < small"
proof -
  have la: "lateral_arrays [0] None = ([0], [0])"
    by (simp add: lateral_arrays_def zeros_like_def)
  have "(100000000::real)\<^sup>2 < 1000000000000000001"
    by simp
  then have big: "100000000 < sqrt 1000000000000000001"
    by (rule real_less_rsqrt)
  then have tiny: "1 / sqrt 1000000000000000001 < small"
    by (simp add: small_def field_simps)
  from degenerate_frame_policy [OF la refl, of 0 1000000000 0 0]
  obtain Zc dZds Tx Ty Tz Lx' Ly' Lz' n m Lx Ly Lz where
    bc: "build_centerline [0] 0 1000000000 0 0 None = Inr ([0], [0], Zc, Lx, Ly, Lz)"
    and dz: "cubic_poly_derivative [0] 1000000000 0 0 = Inr dZds"
    and t: "tangent [0] [0] dZds = Inr (Tx, Ty, Tz)"
    and lc: "left_candidate Tx Ty Tz = Inr (Lx', Ly', Lz')"
    and nn: "norm3 Lx' Ly' Lz' = Inr n"
    and mm: "left_norm Lx' Ly' Lz' = Inr m"
    and every: "\<forall>i < length [0::real].
            Lx' ! i = - Ty ! i \<and> Ly' ! i = Tx ! i \<and> Lz' ! i = 0
          \<and> n ! i = sqrt ((Lx' ! i)\<^sup>2 + (Ly' ! i)\<^sup>2 + (Lz' ! i)\<^sup>2)
          \<and> (n ! i < small \<longrightarrow>
               m ! i = 1 \<and> Lx ! i = Lx' ! i \<and> Ly ! i = Ly' ! i \<and> Lz ! i = Lz' ! i)"
    by (elim exE conjE) (rule that)
  have "0 < length [0::real]"
    by simp
  with every have cand: "Lx' ! 0 = - Ty ! 0" "Ly' ! 0 = Tx ! 0" "Lz' ! 0 = 0"
    and n: "n ! 0 = sqrt ((Lx' ! 0)\<^sup>2 + (Ly' ! 0)\<^sup>2 + (Lz' ! 0)\<^sup>2)"
    and imp: "n ! 0 < small \<longrightarrow>
        m ! 0 = 1 \<and> Lx ! 0 = Lx' ! 0 \<and> Ly ! 0 = Ly' ! 0 \<and> Lz ! 0 = Lz' ! 0"
    by blast+
  have "dZds = [1000000000]"
    using dz by (simp add: cubic_poly_derivative_eq)
  then have T: "Tx ! 0 = 1 / sqrt 1000000000000000001 \<and> Ty ! 0 = 0"
    using t tangent_eq [of "[0]" "[0]" "[1000000000]"] by auto
  then have "n ! 0 = 1 / sqrt 1000000000000000001"
    using n cand by simp
  then have "n ! 0 < small"
    using tiny by simp
  with imp cand T bc tiny show ?thesis
    by auto
qed



end
